theory Spec2Isabelle
  imports Complex_Main
begin

section \<open>Data model (lib/supabase)\<close>

text \<open>
  The TypeScript string-literal unions become datatypes, in the order the source declares
  their members. A JavaScript \<open>number\<close> is modelled as a real: every record reaches the
  client as JSON, which has no NaN and no infinity. Comparing such a value with a threshold
  is exact; sums and products are taken without rounding. A field of type
  \<open>number | null\<close> is a \<open>real option\<close>.
\<close>

datatype ElectionType = midterm_2026 | presidential | midterm

datatype NeighborTurnoutLevel = almost_all | most | about_half | probably_not | definitely_not

datatype TurnoutDirection = much_higher | little_higher | about_same | little_lower | much_lower

record PosteriorEstimate =
  geo_id :: string
  election_type :: ElectionType
  mu_prior :: "real option"
  mu_post :: "real option"
  sigma_prior :: "real option"
  sigma_post :: "real option"
  divergence_z :: "real option"
  delta_mean :: "real option"
  n_eff :: "real option"
  is_visible :: bool
  updated_at :: string

text \<open>\<open>fetchPosteriors\<close>: the remote table is a parameter, the query keeps the rows of one
  election type.\<close>

definition fetchPosteriors :: "ElectionType \<Rightarrow> PosteriorEstimate list \<Rightarrow> PosteriorEstimate list" where
  "fetchPosteriors electionType table = filter (\<lambda>r. election_type r = electionType) table"


section \<open>The hook useRealtime (hooks/useRealtime)\<close>

type_synonym store = "string \<rightharpoonup> PosteriorEstimate"

text \<open>\<open>new Map(prev).set(row.geo_id, row)\<close>\<close>

definition merge :: "PosteriorEstimate \<Rightarrow> store \<Rightarrow> store" where
  "merge row prev = prev(geo_id row \<mapsto> row)"

text \<open>\<open>new Map(data.map(r => [r.geo_id, r]))\<close>: the entries are inserted in order, a later
  entry replaces an earlier one with the same key.\<close>

definition map_of_rows :: "PosteriorEstimate list \<Rightarrow> store" where
  "map_of_rows data = fold merge data Map.empty"

text \<open>
  The state of one mounted hook. Besides the React state (\<open>posteriors\<close>, \<open>connected\<close>) and
  the ref (\<open>prevElectionType\<close>) it holds what the effects have left running: the subscribed
  channel with the election type its handler closed over, the \<open>fetchPosteriors\<close> calls
  that have not resolved yet (each with the election type of the \<open>load\<close> that issued it), and
  the fallback interval with the election type of its \<open>load\<close>.
\<close>

record hook_state =
  electionType :: ElectionType
  prevElectionType :: ElectionType
  posteriors :: store
  connected :: bool
  channel :: "ElectionType option"
  pending :: "ElectionType list"
  interval :: "ElectionType option"

text \<open>The state after the first render and its effects: nothing is cleared, \<open>load\<close> is
  called once, the channel is subscribed and, \<open>connected\<close> being false, the interval runs.\<close>

definition mount :: "ElectionType \<Rightarrow> hook_state" where
  "mount et = \<lparr> electionType = et, prevElectionType = et, posteriors = Map.empty,
     connected = False, channel = Some et, pending = [et], interval = Some et \<rparr>"

text \<open>The handler of \<open>postgres_changes\<close>, closed over \<open>electionType\<close>.\<close>

definition on_postgres_changes :: "ElectionType \<Rightarrow> PosteriorEstimate \<Rightarrow> store \<Rightarrow> store" where
  "on_postgres_changes et row prev = (if election_type row = et then merge row prev else prev)"

datatype event =
    SetElectionType ElectionType
  | FetchResolved nat "PosteriorEstimate list"
  | PostgresChanges PosteriorEstimate
  | SubscribeStatus bool
  | IntervalTick

text \<open>
  One turn of the event loop.
  \<^item> \<open>SetElectionType b\<close>: the hook is rendered with a new argument. With an unchanged
    argument no dependency changes and no effect runs. Otherwise the cleanups remove the
    channel and clear the interval, the first effect clears the map (the ref differs),
    calls the new \<open>load\<close> and subscribes the new channel, the second effect starts the
    interval unless \<open>connected\<close>. The render and its effects are one step here: the
    value the hook returns from that render, the new election type with the map as it
    was before the effect cleared it, is not a state of this model.
  \<^item> \<open>FetchResolved i table\<close>: the \<open>i\<close>-th outstanding \<open>fetchPosteriors\<close> returns the rows of
    its election type in \<open>table\<close>, and \<open>load\<close> continues with \<open>setPosteriors(map)\<close>.
  \<^item> \<open>PostgresChanges row\<close>: the subscribed channel delivers \<open>payload.new\<close>.
  \<^item> \<open>SubscribeStatus b\<close>: the subscribe callback sets \<open>connected\<close> to
    \<open>status === 'SUBSCRIBED'\<close>; the polling effect runs again.
  \<^item> \<open>IntervalTick\<close>: the interval calls its \<open>load\<close>.
\<close>

fun step :: "event \<Rightarrow> hook_state \<Rightarrow> hook_state" where
  "step (SetElectionType b) s =
     (if b = electionType s then s
      else s\<lparr> electionType := b,
              posteriors := (if prevElectionType s \<noteq> b then Map.empty else posteriors s),
              prevElectionType := b,
              pending := pending s @ [b],
              channel := Some b,
              interval := (if connected s then None else Some b) \<rparr>)"
| "step (FetchResolved i table) s =
     (if i < length (pending s)
      then s\<lparr> posteriors := map_of_rows (fetchPosteriors (pending s ! i) table),
              pending := take i (pending s) @ drop (Suc i) (pending s) \<rparr>
      else s)"
| "step (PostgresChanges row) s =
     (case channel s of
        None \<Rightarrow> s
      | Some et \<Rightarrow> s\<lparr> posteriors := on_postgres_changes et row (posteriors s) \<rparr>)"
| "step (SubscribeStatus b) s =
     s\<lparr> connected := b, interval := (if b then None else Some (electionType s)) \<rparr>"
| "step IntervalTick s =
     (case interval s of
        None \<Rightarrow> s
      | Some et \<Rightarrow> s\<lparr> pending := pending s @ [et] \<rparr>)"

definition run :: "event list \<Rightarrow> hook_state \<Rightarrow> hook_state" where
  "run evs s = fold step evs s"


section \<open>Derived attributes and change detection (components/TurnoutMap)\<close>

text \<open>\<open>posterior?.is_visible ?? false\<close>, with \<open>undefined\<close> as \<open>None\<close>.\<close>

definition hasLiveCalibration :: "PosteriorEstimate option \<Rightarrow> bool" where
  "hasLiveCalibration posterior = (case posterior of None \<Rightarrow> False | Some p \<Rightarrow> is_visible p)"

text \<open>The local \<open>turnout\<close> of \<open>getTurnoutColor\<close> and \<open>getGlowIntensity\<close>:
  \<open>hasLiveCalibration ? (posterior?.mu_post ?? muPrior) : muPrior\<close>.\<close>

definition turnout :: "real \<Rightarrow> PosteriorEstimate option \<Rightarrow> real" where
  "turnout muPrior posterior =
     (if hasLiveCalibration posterior
      then (case posterior of
              None \<Rightarrow> muPrior
            | Some p \<Rightarrow> (case mu_post p of None \<Rightarrow> muPrior | Some m \<Rightarrow> m))
      else muPrior)"

text \<open>The quotient is taken over the reals. Where it lies exactly on a cut (prior means
  such as 0.47, 0.5525 and 0.305), the doubles of the source can fall just below the cut
  and give the neighbouring darker band.\<close>

definition getTurnoutColor :: "real \<Rightarrow> PosteriorEstimate option \<Rightarrow> bool \<Rightarrow> string" where
  "getTurnoutColor muPrior posterior isRecentlyUpdated =
     (if isRecentlyUpdated then ''#00FFFF''
      else
        (let normalized = max 0 (min 1 ((turnout muPrior posterior - 0.25) / 0.55))
         in if normalized \<ge> 0.85 then ''#00E5FF''
            else if normalized \<ge> 0.7 then ''#22D3EE''
            else if normalized \<ge> 0.55 then ''#06B6D4''
            else if normalized \<ge> 0.4 then ''#0891B2''
            else if normalized \<ge> 0.25 then ''#0E7490''
            else if normalized \<ge> 0.1 then ''#155E75''
            else ''#164E63''))"

text \<open>\<open>posterior?.n_eff ?? 0\<close>\<close>

definition responses :: "PosteriorEstimate option \<Rightarrow> real" where
  "responses posterior =
     (case posterior of
        None \<Rightarrow> 0
      | Some p \<Rightarrow> (case n_eff p of None \<Rightarrow> 0 | Some n \<Rightarrow> n))"

definition getOpacity :: "PosteriorEstimate option \<Rightarrow> bool \<Rightarrow> real" where
  "getOpacity posterior isRecentlyUpdated =
     (if isRecentlyUpdated then 0.95
      else if hasLiveCalibration posterior then min 0.9 (0.6 + responses posterior * 0.025)
      else 0.55)"

definition getGlowIntensity :: "PosteriorEstimate option \<Rightarrow> real \<Rightarrow> real" where
  "getGlowIntensity posterior muPrior =
     (let boost = (if hasLiveCalibration posterior then 0.1 else 0)
      in if turnout muPrior posterior \<ge> 0.7 then 0.5 + boost
         else if turnout muPrior posterior \<ge> 0.6 then 0.25 + boost
         else 0)"

text \<open>
  The test of the change-tracking effect,
  \<open>!prev || prev.n_eff !== current.n_eff || prev.mu_post !== current.mu_post\<close>,
  where \<open>prev\<close> is the entry of the previous map or \<open>undefined\<close>. Strict inequality of two
  \<open>number | null\<close> values is inequality of the options.
\<close>

definition changed :: "PosteriorEstimate option \<Rightarrow> PosteriorEstimate \<Rightarrow> bool" where
  "changed prev current =
     (case prev of
        None \<Rightarrow> True
      | Some p \<Rightarrow> n_eff p \<noteq> n_eff current \<or> mu_post p \<noteq> mu_post current)"


section \<open>Signals, the signal log and the pulse set (components/Dashboard)\<close>

datatype SignalType = higher | same | lower

datatype Impact = small | medium | large

record SignalEntry =
  entry_id :: string
  timestamp :: string
  geoId :: string
  neighborhood :: string
  signalType :: SignalType
  impact :: Impact
  posteriorShift :: real

text \<open>The fields of a row of \<open>poll_submissions\<close> that the dashboard reads.\<close>

record PollSubmission =
  submission_id :: string
  created_at :: string
  submission_geo_id :: string
  neighbor_turnout :: NeighborTurnoutLevel
  turnout_direction :: TurnoutDirection

fun turnoutScore :: "NeighborTurnoutLevel \<Rightarrow> real" where
  "turnoutScore almost_all = 2"
| "turnoutScore most = 1"
| "turnoutScore about_half = 0"
| "turnoutScore probably_not = -1"
| "turnoutScore definitely_not = -2"

fun directionScore :: "TurnoutDirection \<Rightarrow> real" where
  "directionScore much_higher = 2"
| "directionScore little_higher = 1"
| "directionScore about_same = 0"
| "directionScore little_lower = -1"
| "directionScore much_lower = -2"

definition getSignalType :: "NeighborTurnoutLevel \<Rightarrow> TurnoutDirection \<Rightarrow> SignalType" where
  "getSignalType neighborTurnout direction =
     (let combined = turnoutScore neighborTurnout + directionScore direction * 0.5
      in if combined > 0.5 then higher
         else if combined < - 0.5 then lower
         else same)"

text \<open>The two tables of the shift estimate (the second is again called \<open>directionScore\<close> in
  the source, local to the handlers).\<close>

fun signalScore :: "NeighborTurnoutLevel \<Rightarrow> real" where
  "signalScore almost_all = 0.15"
| "signalScore most = 0.08"
| "signalScore about_half = 0"
| "signalScore probably_not = -0.08"
| "signalScore definitely_not = -0.15"

fun shiftDirectionScore :: "TurnoutDirection \<Rightarrow> real" where
  "shiftDirectionScore much_higher = 0.1"
| "shiftDirectionScore little_higher = 0.05"
| "shiftDirectionScore about_same = 0"
| "shiftDirectionScore little_lower = -0.05"
| "shiftDirectionScore much_lower = -0.1"

text \<open>\<open>neighborhoodLookup.get(geoId) || 'Unknown'\<close>: a missing entry and the empty string
  both give the default.\<close>

definition neighborhoodOf :: "(string \<rightharpoonup> string) \<Rightarrow> string \<Rightarrow> string" where
  "neighborhoodOf neighborhoodLookup g =
     (case neighborhoodLookup g of
        None \<Rightarrow> ''Unknown''
      | Some n \<Rightarrow> (if n = [] then ''Unknown'' else n))"

text \<open>\<open>Math.abs(posterior?.divergence_z ?? 0)\<close> for \<open>posterior = posteriors.get(geoId)\<close>.\<close>

definition currentZ :: "store \<Rightarrow> string \<Rightarrow> real" where
  "currentZ posts g =
     \<bar>case posts g of
        None \<Rightarrow> 0
      | Some p \<Rightarrow> (case divergence_z p of None \<Rightarrow> 0 | Some z \<Rightarrow> z)\<bar>"

definition impactOf :: "real \<Rightarrow> Impact" where
  "impactOf z = (if z \<ge> 1.5 then large else if z \<ge> 0.75 then medium else small)"

text \<open>The entry built by the handler of a live \<open>INSERT\<close> on \<open>poll_submissions\<close>.\<close>

definition newSignal :: "(string \<rightharpoonup> string) \<Rightarrow> store \<Rightarrow> PollSubmission \<Rightarrow> SignalEntry" where
  "newSignal neighborhoodLookup posts submission =
     \<lparr> entry_id = submission_id submission,
       timestamp = created_at submission,
       geoId = submission_geo_id submission,
       neighborhood = neighborhoodOf neighborhoodLookup (submission_geo_id submission),
       signalType = getSignalType (neighbor_turnout submission) (turnout_direction submission),
       impact = impactOf (currentZ posts (submission_geo_id submission)),
       posteriorShift =
         (signalScore (neighbor_turnout submission)
            + shiftDirectionScore (turnout_direction submission) * 0.5) * 0.1 \<rparr>"

text \<open>The entry built by \<open>loadActivePoll\<close> for a stored submission; the \<open>|| 0\<close> of the two
  table lookups changes no value of the tables.\<close>

definition loadedSignal :: "(string \<rightharpoonup> string) \<Rightarrow> PollSubmission \<Rightarrow> SignalEntry" where
  "loadedSignal neighborhoodLookup sub =
     \<lparr> entry_id = submission_id sub,
       timestamp = created_at sub,
       geoId = submission_geo_id sub,
       neighborhood = neighborhoodOf neighborhoodLookup (submission_geo_id sub),
       signalType = getSignalType (neighbor_turnout sub) (turnout_direction sub),
       impact = medium,
       posteriorShift =
         (signalScore (neighbor_turnout sub)
            + shiftDirectionScore (turnout_direction sub) * 0.5) * 0.1 \<rparr>"

text \<open>\<open>xs.slice(-n)\<close>: the last \<open>n\<close> elements, the whole array when it is shorter.\<close>

definition slice_neg :: "nat \<Rightarrow> 'a list \<Rightarrow> 'a list" where
  "slice_neg n xs = drop (length xs - n) xs"

text \<open>\<open>setSignals((prev) => [...prev.slice(-49), newSignal])\<close>\<close>

definition appendSignal :: "SignalEntry \<Rightarrow> SignalEntry list \<Rightarrow> SignalEntry list" where
  "appendSignal entry prev = slice_neg 49 prev @ [entry]"

text \<open>
  The dashboard state the handlers write: the signal log, the set \<open>recentlyUpdated\<close>, and
  the callbacks registered with \<open>setTimeout\<close> that have not run yet, each with the time
  (in milliseconds) at which it is due and the \<open>geoId\<close> it deletes. \<open>now\<close> is the clock.
\<close>

record dashboard_state =
  signals :: "SignalEntry list"
  recentlyUpdated :: "string set"
  timeouts :: "(nat \<times> string) list"
  now :: nat

definition init_dashboard :: "nat \<Rightarrow> dashboard_state" where
  "init_dashboard t = \<lparr> signals = [], recentlyUpdated = {}, timeouts = [], now = t \<rparr>"

text \<open>\<open>loadActivePoll\<close>: \<open>setSignals(loadedSignals.slice(-50))\<close> when there are submissions.\<close>

definition loadActivePoll ::
  "(string \<rightharpoonup> string) \<Rightarrow> PollSubmission list \<Rightarrow> dashboard_state \<Rightarrow> dashboard_state" where
  "loadActivePoll neighborhoodLookup submissions s =
     (if submissions = [] then s
      else s\<lparr> signals := slice_neg 50 (map (loadedSignal neighborhoodLookup) submissions) \<rparr>)"

text \<open>Marking a precinct: \<open>setRecentlyUpdated((prev) => new Set(prev).add(geoId))\<close> followed
  by \<open>setTimeout(..., 2000)\<close>. No handle of the timeout is kept.\<close>

definition mark :: "string \<Rightarrow> dashboard_state \<Rightarrow> dashboard_state" where
  "mark g s =
     s\<lparr> recentlyUpdated := insert g (recentlyUpdated s),
        timeouts := timeouts s @ [(now s + 2000, g)] \<rparr>"

text \<open>The callback of the timeout: \<open>next.delete(geoId)\<close> on a copy of the set.\<close>

definition expire :: "string \<Rightarrow> string set \<Rightarrow> string set" where
  "expire g prev = prev - {g}"

text \<open>Time passes until \<open>t\<close>: the callbacks due by then run, in the order they were
  registered (all have the same delay), and are gone.\<close>

definition elapse :: "nat \<Rightarrow> dashboard_state \<Rightarrow> dashboard_state" where
  "elapse t s =
     s\<lparr> recentlyUpdated :=
          fold (\<lambda>(due, g). expire g) (filter (\<lambda>(due, g). due \<le> t) (timeouts s))
            (recentlyUpdated s),
        timeouts := filter (\<lambda>(due, g). \<not> due \<le> t) (timeouts s),
        now := max (now s) t \<rparr>"

text \<open>The handler of a live submission, as far as it writes this state (it also bumps the
  poll's response count and calls \<open>refresh\<close>).\<close>

definition on_submission ::
  "(string \<rightharpoonup> string) \<Rightarrow> store \<Rightarrow> PollSubmission \<Rightarrow> dashboard_state \<Rightarrow> dashboard_state" where
  "on_submission neighborhoodLookup posts submission s =
     mark (submission_geo_id submission)
       (s\<lparr> signals := appendSignal (newSignal neighborhoodLookup posts submission) (signals s) \<rparr>)"

text \<open>What \<open>TurnoutMap\<close> reads for a precinct: \<open>recentlyUpdated.has(geoId)\<close>.\<close>

definition isRecentlyUpdated :: "string \<Rightarrow> dashboard_state \<Rightarrow> bool" where
  "isRecentlyUpdated g s = (g \<in> recentlyUpdated s)"


section \<open>The classification as the specification words it\<close>

text \<open>
  The specification gives each categorical field a five-point ordinal scale centred at
  zero, weights the primary field with 1.0 and the secondary field with 0.5, and cuts the
  sum at 0.5 and -0.5. The position of a level is its place in the declaration of its type.
\<close>

fun spec_level :: "NeighborTurnoutLevel \<Rightarrow> nat" where
  "spec_level almost_all = 0"
| "spec_level most = 1"
| "spec_level about_half = 2"
| "spec_level probably_not = 3"
| "spec_level definitely_not = 4"

fun spec_direction_level :: "TurnoutDirection \<Rightarrow> nat" where
  "spec_direction_level much_higher = 0"
| "spec_direction_level little_higher = 1"
| "spec_direction_level about_same = 2"
| "spec_direction_level little_lower = 3"
| "spec_direction_level much_lower = 4"

definition spec_ordinal :: "nat \<Rightarrow> real" where
  "spec_ordinal i = 2 - real i"

definition spec_direction :: "NeighborTurnoutLevel \<Rightarrow> TurnoutDirection \<Rightarrow> SignalType" where
  "spec_direction primary secondary =
     (let score = 1.0 * spec_ordinal (spec_level primary)
                + 0.5 * spec_ordinal (spec_direction_level secondary)
      in if score > 0.5 then higher else if score < - 0.5 then lower else same)"


section \<open>Concrete inputs\<close>

definition row_P1_presidential :: PosteriorEstimate where
  "row_P1_presidential =
     \<lparr> geo_id = ''P1'', election_type = presidential, mu_prior = Some 0.6, mu_post = None,
       sigma_prior = None, sigma_post = None, divergence_z = None, delta_mean = None,
       n_eff = Some 0, is_visible = False, updated_at = ''2026-01-01T00:00:00Z'' \<rparr>"

definition row_P2_midterm :: PosteriorEstimate where
  "row_P2_midterm =
     \<lparr> geo_id = ''P2'', election_type = midterm, mu_prior = Some 0.5, mu_post = None,
       sigma_prior = None, sigma_post = None, divergence_z = None, delta_mean = None,
       n_eff = Some 0, is_visible = False, updated_at = ''2026-01-01T00:00:00Z'' \<rparr>"

definition row_P1_live :: PosteriorEstimate where
  "row_P1_live =
     \<lparr> geo_id = ''P1'', election_type = presidential, mu_prior = Some 0.6, mu_post = Some 0.7,
       sigma_prior = None, sigma_post = None, divergence_z = Some 2, delta_mean = None,
       n_eff = Some 6, is_visible = True, updated_at = ''2026-01-01T00:05:00Z'' \<rparr>"

definition row_P1_busy :: PosteriorEstimate where
  "row_P1_busy =
     \<lparr> geo_id = ''P1'', election_type = presidential, mu_prior = Some 0.6, mu_post = Some 0.7,
       sigma_prior = None, sigma_post = None, divergence_z = Some 2, delta_mean = None,
       n_eff = Some 20, is_visible = True, updated_at = ''2026-01-01T00:09:00Z'' \<rparr>"

definition row_P1_visible_no_post :: PosteriorEstimate where
  "row_P1_visible_no_post =
     \<lparr> geo_id = ''P1'', election_type = presidential, mu_prior = Some 0.72, mu_post = None,
       sigma_prior = None, sigma_post = None, divergence_z = None, delta_mean = None,
       n_eff = Some 5, is_visible = True, updated_at = ''2026-01-01T00:05:00Z'' \<rparr>"

definition table_both :: "PosteriorEstimate list" where
  "table_both = [row_P1_presidential, row_P2_midterm]"

definition submission_P1 :: PollSubmission where
  "submission_P1 =
     \<lparr> submission_id = ''s1'', created_at = ''2026-01-01T00:04:00Z'', submission_geo_id = ''P1'',
       neighbor_turnout = almost_all, turnout_direction = much_higher \<rparr>"

definition numbered_signal :: "nat \<Rightarrow> SignalEntry" where
  "numbered_signal i =
     \<lparr> entry_id = replicate i (CHR ''i''), timestamp = ''2026-01-01T00:04:00Z'', geoId = ''P1'',
       neighborhood = ''Unknown'', signalType = same, impact = small, posteriorShift = 0 \<rparr>"


section \<open>Properties of the entity store\<close>

lemma find_snoc:
  "List.find P (xs @ [x]) =
     (case List.find P xs of None \<Rightarrow> (if P x then Some x else None) | Some y \<Rightarrow> Some y)"
  by (induction xs) simp_all

lemma fold_merge_lookup:
  "fold merge rows m k =
     (case List.find (\<lambda>r. geo_id r = k) (rev rows) of None \<Rightarrow> m k | Some r \<Rightarrow> Some r)"
proof (induction rows arbitrary: m)
  case Nil
  show ?case by simp
next
  case (Cons r rows)
  have "fold merge (r # rows) m k = fold merge rows (merge r m) k"
    by simp
  also have "\<dots> = (case List.find (\<lambda>r. geo_id r = k) (rev rows) of
                      None \<Rightarrow> merge r m k | Some r' \<Rightarrow> Some r')"
    by (rule Cons.IH)
  also have "\<dots> = (case List.find (\<lambda>r. geo_id r = k) (rev (r # rows)) of
                      None \<Rightarrow> m k | Some r' \<Rightarrow> Some r')"
    by (auto simp: merge_def find_snoc split: option.split)
  finally show ?case .
qed

lemma channel_follows_electionType:
  "channel (run evs (mount et)) = Some (electionType (run evs (mount et)))"
proof (induction evs rule: rev_induct)
  case Nil
  show ?case by (simp add: run_def mount_def)
next
  case (snoc e evs)
  then show ?case
    by (cases e) (simp_all add: run_def split: option.split)
qed

lemma switch_clears_store:
  "b \<noteq> electionType (run evs (mount et))
     \<Longrightarrow> posteriors (step (SetElectionType b) (run evs (mount et))) = Map.empty"
proof -
  have "prevElectionType (run evs (mount et)) = electionType (run evs (mount et))"
  proof (induction evs rule: rev_induct)
    case Nil
    show ?case by (simp add: run_def mount_def)
  next
    case (snoc e evs)
    then show ?case
      by (cases e) (simp_all add: run_def split: option.split)
  qed
  then show "b \<noteq> electionType (run evs (mount et))
     \<Longrightarrow> posteriors (step (SetElectionType b) (run evs (mount et))) = Map.empty"
    by simp
qed

text \<open>
  C2. Merging a finite sequence of records into the empty store leaves, under every key,
  the last record of the sequence that carries that key, and nothing under a key that no
  record of the sequence carries.
\<close>

theorem merge_last_write_wins:
  "fold merge rows Map.empty k = List.find (\<lambda>r. geo_id r = k) (rev rows)"
  by (simp add: fold_merge_lookup split: option.split)

text \<open>
  C3. In every state the hook reaches from its mount, a push event whose record has an
  election type other than the active one leaves the whole state unchanged, and a push
  event whose record has the active election type stores the record under its \<open>geo_id\<close>
  and changes nothing else.
\<close>

theorem push_event_filtered:
  "step (PostgresChanges row) (run evs (mount et)) =
     (if election_type row = electionType (run evs (mount et))
      then (run evs (mount et))\<lparr> posteriors := (posteriors (run evs (mount et)))(geo_id row \<mapsto> row) \<rparr>
      else run evs (mount et))"
  by (simp add: channel_follows_electionType on_postgres_changes_def merge_def)

text \<open>
  C1. The claim asks that after a switch no snapshot holds a record of the old election
  type, also while a reload of the old type is in flight. The hook clears the map and
  removes the old channel, but a \<open>load\<close> that was issued before the switch still ends in
  \<open>setPosteriors(map)\<close>. Evaluated here: the hook is mounted for \<open>presidential\<close>, switched to
  \<open>midterm\<close>, and then the fetch issued at mount resolves; the map of the hook, now showing
  \<open>midterm\<close>, holds the \<open>presidential\<close> record of \<open>P1\<close>. It does so as well when the
  \<open>midterm\<close> fetch has resolved first, and then holds no \<open>midterm\<close> record at all.
\<close>

theorem stale_load_after_switch:
  "electionType (run [SetElectionType midterm, FetchResolved 0 table_both] (mount presidential))
     = midterm
   \<and> posteriors (run [SetElectionType midterm, FetchResolved 0 table_both] (mount presidential))
       ''P1'' = Some row_P1_presidential
   \<and> election_type row_P1_presidential = presidential
   \<and> posteriors (run [SetElectionType midterm, FetchResolved 1 table_both,
                      FetchResolved 0 table_both] (mount presidential)) ''P1''
       = Some row_P1_presidential
   \<and> posteriors (run [SetElectionType midterm, FetchResolved 1 table_both,
                      FetchResolved 0 table_both] (mount presidential)) ''P2''
       = None"
  by (simp add: run_def mount_def map_of_rows_def fetchPosteriors_def merge_def table_both_def
      row_P1_presidential_def row_P2_midterm_def)


section \<open>Properties of the derived attributes\<close>

text \<open>
  C4. A record seen for the first time counts as changed, and a record with a previous
  version counts as changed exactly when its \<open>n_eff\<close> or its \<open>mu_post\<close> differs from the
  previous one's; with both fields equal there is no change.
\<close>

theorem changed_iff:
  "changed None current
   \<and> (changed (Some prev) current
        \<longleftrightarrow> n_eff prev \<noteq> n_eff current \<or> mu_post prev \<noteq> mu_post current)"
  by (simp add: changed_def)

text \<open>The first event of a precinct, the event that calibrates it, and the same record
  again.\<close>

theorem changed_iff_witness:
  "changed None row_P1_presidential
   \<and> changed (Some row_P1_presidential) row_P1_live
   \<and> \<not> changed (Some row_P1_live) row_P1_live"
  using changed_iff [of row_P1_presidential row_P1_presidential]
    changed_iff [of row_P1_live row_P1_presidential]
    changed_iff [of row_P1_live row_P1_live]
  by (simp add: row_P1_presidential_def row_P1_live_def)

text \<open>
  C5. The opacity of a highlighted precinct is 0.95 whatever its record; without the
  highlight it is 0.55 when there is no record or the record is not visible, and for
  visible records it does not decrease when the effective count grows and is at most 0.9.
  (The bound and the monotonicity are those of the records that are not highlighted: the
  highlight overrides them with 0.95.)
\<close>

theorem getOpacity_bands:
  "getOpacity posterior True = 0.95
   \<and> getOpacity None False = 0.55
   \<and> (\<not> is_visible p \<longrightarrow> getOpacity (Some p) False = 0.55)
   \<and> (is_visible p \<and> is_visible q \<and> responses (Some p) \<le> responses (Some q)
        \<longrightarrow> getOpacity (Some p) False \<le> getOpacity (Some q) False)
   \<and> (is_visible p \<longrightarrow> getOpacity (Some p) False \<le> 0.9)"
proof -
  have a: "getOpacity posterior True = 0.95"
    by (simp add: getOpacity_def)
  have b: "getOpacity None False = 0.55"
    by (simp add: getOpacity_def hasLiveCalibration_def)
  have c: "\<not> is_visible p \<longrightarrow> getOpacity (Some p) False = 0.55"
    by (simp add: getOpacity_def hasLiveCalibration_def)
  have d: "is_visible p \<and> is_visible q \<and> responses (Some p) \<le> responses (Some q)
       \<longrightarrow> getOpacity (Some p) False \<le> getOpacity (Some q) False"
  proof (intro impI, elim conjE)
    assume v: "is_visible p" "is_visible q"
      and le: "responses (Some p) \<le> responses (Some q)"
    have "min 0.9 (0.6 + responses (Some p) * 0.025)
            \<le> min 0.9 (0.6 + responses (Some q) * (0.025::real))"
      using le by (intro min.mono) simp_all
    with v show "getOpacity (Some p) False \<le> getOpacity (Some q) False"
      by (simp only: getOpacity_def hasLiveCalibration_def option.case if_True if_False)
  qed
  have e: "is_visible p \<longrightarrow> getOpacity (Some p) False \<le> 0.9"
  proof
    assume v: "is_visible p"
    have "min 0.9 (0.6 + responses (Some p) * 0.025) \<le> (0.9::real)"
      by (rule min.cobounded1)
    with v show "getOpacity (Some p) False \<le> 0.9"
      by (simp only: getOpacity_def hasLiveCalibration_def option.case if_True if_False)
  qed
  from a b c d e show ?thesis by blast
qed

text \<open>A precinct before calibration, with 6 and with 20 responses: the base opacity,
  more than the base, and the cap.\<close>

theorem getOpacity_bands_witness:
  "getOpacity (Some row_P1_presidential) False = 0.55
   \<and> 0.55 < getOpacity (Some row_P1_live) False
   \<and> getOpacity (Some row_P1_busy) False = 0.9
   \<and> getOpacity (Some row_P1_live) False \<le> getOpacity (Some row_P1_busy) False
   \<and> getOpacity (Some row_P1_busy) True = 0.95"
  using getOpacity_bands [of "Some row_P1_busy" row_P1_presidential row_P1_busy]
    getOpacity_bands [of "Some row_P1_busy" row_P1_live row_P1_busy]
  by (simp add: getOpacity_def hasLiveCalibration_def responses_def
      row_P1_presidential_def row_P1_live_def row_P1_busy_def)

text \<open>
  C10. For a record that is visible but has no posterior mean, the displayed mean is the
  prior mean. The fill colour is the band of the prior mean, normalised from 0.25 to 0.80
  and cut at 0.85, 0.7, 0.55, 0.4, 0.25 and 0.1 (the flash colour under the highlight), the
  same colour as for the precinct without any record; the glow is the step function of the
  prior mean with the boost of a visible record.
\<close>

theorem visible_without_posterior_uses_prior:
  assumes "is_visible p" and "mu_post p = None"
  shows "turnout muPrior (Some p) = muPrior
    \<and> getTurnoutColor muPrior (Some p) h = getTurnoutColor muPrior None h
    \<and> getTurnoutColor muPrior (Some p) True = ''#00FFFF''
    \<and> getTurnoutColor muPrior (Some p) False
        = (let normalized = max 0 (min 1 ((muPrior - 0.25) / 0.55))
           in if normalized \<ge> 0.85 then ''#00E5FF''
              else if normalized \<ge> 0.7 then ''#22D3EE''
              else if normalized \<ge> 0.55 then ''#06B6D4''
              else if normalized \<ge> 0.4 then ''#0891B2''
              else if normalized \<ge> 0.25 then ''#0E7490''
              else if normalized \<ge> 0.1 then ''#155E75''
              else ''#164E63'')
    \<and> getGlowIntensity (Some p) muPrior
        = (if muPrior \<ge> 0.7 then 0.6 else if muPrior \<ge> 0.6 then 0.35 else 0)"
proof -
  from assms have t: "turnout muPrior (Some p) = muPrior"
    by (simp add: turnout_def hasLiveCalibration_def)
  have n: "turnout muPrior None = muPrior"
    by (simp add: turnout_def hasLiveCalibration_def)
  have c0: "getTurnoutColor muPrior (Some p) h = getTurnoutColor muPrior None h"
    by (simp only: getTurnoutColor_def t n)
  have c1: "getTurnoutColor muPrior (Some p) True = ''#00FFFF''"
    by (simp only: getTurnoutColor_def if_True)
  have c2: "getTurnoutColor muPrior (Some p) False
        = (let normalized = max 0 (min 1 ((muPrior - 0.25) / 0.55))
           in if normalized \<ge> 0.85 then ''#00E5FF''
              else if normalized \<ge> 0.7 then ''#22D3EE''
              else if normalized \<ge> 0.55 then ''#06B6D4''
              else if normalized \<ge> 0.4 then ''#0891B2''
              else if normalized \<ge> 0.25 then ''#0E7490''
              else if normalized \<ge> 0.1 then ''#155E75''
              else ''#164E63'')"
    by (simp only: getTurnoutColor_def t if_False)
  from assms have g: "getGlowIntensity (Some p) muPrior
        = (if muPrior \<ge> 0.7 then 0.6 else if muPrior \<ge> 0.6 then 0.35 else 0)"
    by (simp add: getGlowIntensity_def t hasLiveCalibration_def)
  from t c0 c1 c2 g show ?thesis by blast
qed

text \<open>A visible record without posterior mean, shown with prior means of 0.72, 0.5 and
  0.2: the brightest band with a glow of 0.6, the middle band and the darkest band, both
  without glow.\<close>

theorem visible_without_posterior_uses_prior_witness:
  "is_visible row_P1_visible_no_post \<and> mu_post row_P1_visible_no_post = None
   \<and> getTurnoutColor 0.72 (Some row_P1_visible_no_post) False = ''#00E5FF''
   \<and> getTurnoutColor 0.5 (Some row_P1_visible_no_post) False = ''#0891B2''
   \<and> getTurnoutColor 0.2 (Some row_P1_visible_no_post) False = ''#164E63''
   \<and> getGlowIntensity (Some row_P1_visible_no_post) 0.72 = 0.6
   \<and> getGlowIntensity (Some row_P1_visible_no_post) 0.5 = 0"
proof -
  have v: "is_visible row_P1_visible_no_post"
    by (simp add: row_P1_visible_no_post_def)
  have m: "mu_post row_P1_visible_no_post = None"
    by (simp add: row_P1_visible_no_post_def)
  note th = visible_without_posterior_uses_prior [OF v m]
  note colour = th [THEN conjunct2, THEN conjunct2, THEN conjunct2, THEN conjunct1]
  note glow = th [THEN conjunct2, THEN conjunct2, THEN conjunct2, THEN conjunct2]
  have c1: "getTurnoutColor 0.72 (Some row_P1_visible_no_post) False = ''#00E5FF''"
    using colour [of "0.72"] by (simp add: Let_def)
  have c2: "getTurnoutColor 0.5 (Some row_P1_visible_no_post) False = ''#0891B2''"
    using colour [of "0.5"] by (simp add: Let_def)
  have c3: "getTurnoutColor 0.2 (Some row_P1_visible_no_post) False = ''#164E63''"
    using colour [of "0.2"] by (simp add: Let_def)
  have g1: "getGlowIntensity (Some row_P1_visible_no_post) 0.72 = 0.6"
    using glow [of "0.72"] by simp
  have g2: "getGlowIntensity (Some row_P1_visible_no_post) 0.5 = 0"
    using glow [of "0.5"] by simp
  from v m c1 c2 c3 g1 g2 show ?thesis by blast
qed


section \<open>Properties of the signal classification\<close>

text \<open>
  C6. For every pair of answers the signal type computed by the dashboard is the one the
  weighted ordinal scores give (weights 1.0 and 0.5, cuts at 0.5 and -0.5); the pair
  (almost all, much higher) is classified higher, the pair (definitely not, much lower)
  lower, and the pair (about half, about the same) same.
\<close>

theorem getSignalType_spec:
  "getSignalType t d = spec_direction t d
   \<and> getSignalType almost_all much_higher = higher
   \<and> getSignalType definitely_not much_lower = lower
   \<and> getSignalType about_half about_same = same"
  by (cases t; cases d) (simp_all add: getSignalType_def spec_direction_def spec_ordinal_def)

text \<open>
  C7, as amended. The impact of a signal built from a live submission follows the absolute
  divergence score of its precinct in the current map: large from 1.5, medium from 0.75,
  small below, and small when the precinct has no record or no score. A signal loaded
  from the stored submissions has impact medium, whatever the score.
\<close>

theorem impact_live_and_loaded:
  "(posts (submission_geo_id sub) = Some p \<and> divergence_z p = Some z
      \<longrightarrow> impact (newSignal nl posts sub)
            = (if \<bar>z\<bar> \<ge> 1.5 then large else if \<bar>z\<bar> \<ge> 0.75 then medium else small))
   \<and> (posts (submission_geo_id sub) = None
        \<or> (\<exists>p. posts (submission_geo_id sub) = Some p \<and> divergence_z p = None)
      \<longrightarrow> impact (newSignal nl posts sub) = small)
   \<and> impact (loadedSignal nl sub) = medium"
  by (auto simp: loadedSignal_def newSignal_def impactOf_def currentZ_def split: option.splits)

text \<open>A live submission for a precinct whose score is 2, and one for a precinct that is
  not in the map.\<close>

theorem impact_live_and_loaded_witness:
  "impact (newSignal Map.empty [''P1'' \<mapsto> row_P1_live] submission_P1) = large
   \<and> impact (newSignal Map.empty Map.empty submission_P1) = small
   \<and> impact (loadedSignal Map.empty submission_P1) = medium"
  using impact_live_and_loaded [of "[''P1'' \<mapsto> row_P1_live]" submission_P1 row_P1_live 2 Map.empty]
    impact_live_and_loaded [of Map.empty submission_P1 row_P1_live 2 Map.empty]
  by (simp add: submission_P1_def row_P1_live_def)

text \<open>The claim as first stated fails for the loaded signals: for the stored submission
  of a precinct whose score is 2 the derived impact would be large, and with an empty map
  small, while the loaded signal has neither.\<close>

theorem loaded_impact_counterexample:
  "impact (loadedSignal Map.empty submission_P1)
     \<noteq> impactOf (currentZ [''P1'' \<mapsto> row_P1_live] (submission_geo_id submission_P1))
   \<and> impact (loadedSignal Map.empty submission_P1)
     \<noteq> impactOf (currentZ Map.empty (submission_geo_id submission_P1))"
  by (simp add: loadedSignal_def impactOf_def currentZ_def submission_P1_def row_P1_live_def)


section \<open>Properties of the signal log\<close>

lemma slice_neg_length: "length (slice_neg n xs) = min n (length xs)"
  by (simp add: slice_neg_def)

lemma appendSignal_slice:
  "length l \<le> 50 \<Longrightarrow> appendSignal x l = slice_neg 50 (l @ [x])"
  by (simp add: appendSignal_def slice_neg_def)

lemma slice_neg_snoc:
  "slice_neg 50 (slice_neg 50 ys @ [x]) = slice_neg 50 (ys @ [x])"
proof (cases "length ys \<le> 50")
  case True
  then show ?thesis by (simp add: slice_neg_def)
next
  case False
  then have "length ys - (length ys - 50 + 49) + (length ys - 50) = length ys - 49"
    by arith
  with False show ?thesis by (simp add: slice_neg_def)
qed

lemma fold_appendSignal:
  "length l \<le> 50 \<Longrightarrow> fold appendSignal xs l = slice_neg 50 (l @ xs)"
proof (induction xs rule: rev_induct)
  case Nil
  then show ?case by (simp add: slice_neg_def)
next
  case (snoc x xs)
  have "fold appendSignal (xs @ [x]) l = appendSignal x (slice_neg 50 (l @ xs))"
    using snoc by simp
  also have "\<dots> = slice_neg 50 (slice_neg 50 (l @ xs) @ [x])"
    by (rule appendSignal_slice) (simp add: slice_neg_def)
  also have "\<dots> = slice_neg 50 ((l @ xs) @ [x])"
    by (rule slice_neg_snoc)
  finally show ?case by simp
qed

lemma signals_after_submissions:
  "signals (fold (on_submission nl posts) subs s)
     = fold appendSignal (map (newSignal nl posts) subs) (signals s)"
  by (induction subs arbitrary: s) (simp_all add: on_submission_def mark_def)

text \<open>
  C8. Whatever the log held before, it has at most 50 entries after an append, and so has
  the log set from the stored submissions. After 50 + n appends to the empty log, the log
  is the appended sequence without its first n entries: the last 50, oldest first.
\<close>

theorem signal_log_bounded:
  "length (appendSignal x l) \<le> 50
   \<and> length (signals (loadActivePoll nl subs (init_dashboard t0))) \<le> 50
   \<and> length (fold appendSignal xs []) \<le> 50
   \<and> (length xs = 50 + n
        \<longrightarrow> fold appendSignal xs [] = drop n xs \<and> length (fold appendSignal xs []) = 50)"
proof -
  have a: "length (appendSignal x l) \<le> 50"
    by (simp add: appendSignal_def slice_neg_def)
  have b: "length (signals (loadActivePoll nl subs (init_dashboard t0))) \<le> 50"
    by (simp add: loadActivePoll_def init_dashboard_def slice_neg_length)
  have c: "fold appendSignal xs [] = slice_neg 50 xs"
    using fold_appendSignal [of "[]" xs] by simp
  from a b c show ?thesis
    by (simp add: slice_neg_def)
qed

text \<open>51 appends: the log is the sequence without its first entry.\<close>

theorem signal_log_bounded_witness:
  "length (map numbered_signal [0..<51]) = 50 + 1
   \<and> fold appendSignal (map numbered_signal [0..<51]) [] = drop 1 (map numbered_signal [0..<51])
   \<and> length (fold appendSignal (map numbered_signal [0..<51]) []) = 50"
  using signal_log_bounded [of "numbered_signal 0" "[]" Map.empty "[]" 0
      "map numbered_signal [0..<51]" 1]
  by simp


section \<open>Properties of the pulse set\<close>

lemma fold_expire_member:
  "k \<in> fold (\<lambda>(due, g). expire g) ds R \<longleftrightarrow> k \<in> R \<and> k \<notin> snd ` set ds"
proof (induction ds arbitrary: R)
  case Nil
  show ?case by simp
next
  case (Cons d ds)
  obtain due g where d: "d = (due, g)" by (cases d)
  have "k \<in> fold (\<lambda>(due, g). expire g) (d # ds) R
          \<longleftrightarrow> k \<in> fold (\<lambda>(due, g). expire g) ds (expire g R)"
    by (simp add: d)
  also have "\<dots> \<longleftrightarrow> k \<in> expire g R \<and> k \<notin> snd ` set ds"
    by (rule Cons.IH)
  also have "\<dots> \<longleftrightarrow> k \<in> R \<and> k \<notin> snd ` set (d # ds)"
    by (auto simp: expire_def d)
  finally show ?case .
qed

lemma elapse_member:
  "isRecentlyUpdated k (elapse t s) \<longleftrightarrow>
     k \<in> recentlyUpdated s \<and> k \<notin> snd ` set (filter (\<lambda>(due, g). due \<le> t) (timeouts s))"
  by (simp add: isRecentlyUpdated_def elapse_def fold_expire_member)

text \<open>
  C9, as amended. Let no timeout be pending for a key, and let the key be marked now and
  again at a time \<open>t2\<close> less than 2000 ms later. Then the key is in the set at every time
  up to \<open>t2\<close>, and at a time from \<open>t2\<close> on it is in the set exactly when less than 2000 ms
  have passed since the first mark: each mark registers a timeout of its own, and the
  timeout of the first mark removes the key.
\<close>

theorem remark_expires_with_first_mark:
  assumes "k \<notin> snd ` set (timeouts s)" and "now s \<le> t2" and "t2 < now s + 2000"
  shows "(t1 \<le> t2 \<longrightarrow> isRecentlyUpdated k (elapse t1 (mark k s)))
    \<and> (t2 \<le> t \<longrightarrow>
         (isRecentlyUpdated k (elapse t (mark k (elapse t2 (mark k s))))
            \<longleftrightarrow> t < now s + 2000))"
  using assms
  by (auto simp: elapse_member) (auto simp: mark_def elapse_def fold_expire_member image_iff)

text \<open>Marks at 0 and at 1000: the key is in the set at 500 and at 1999, and no longer at
  2000.\<close>

theorem remark_expires_with_first_mark_witness:
  "isRecentlyUpdated ''P1'' (elapse 500 (mark ''P1'' (init_dashboard 0)))
   \<and> isRecentlyUpdated ''P1''
       (elapse 1999 (mark ''P1'' (elapse 1000 (mark ''P1'' (init_dashboard 0)))))
   \<and> \<not> isRecentlyUpdated ''P1''
       (elapse 2000 (mark ''P1'' (elapse 1000 (mark ''P1'' (init_dashboard 0)))))"
proof -
  have h1: "''P1'' \<notin> snd ` set (timeouts (init_dashboard 0))"
    by (simp add: init_dashboard_def)
  have h2: "now (init_dashboard 0) \<le> 1000"
    by (simp add: init_dashboard_def)
  have h3: "1000 < now (init_dashboard 0) + 2000"
    by (simp add: init_dashboard_def)
  have n: "now (init_dashboard 0) = 0"
    by (simp add: init_dashboard_def)
  note th = remark_expires_with_first_mark [OF h1 h2 h3]
  from th [of 500 1999] th [of 500 2000] show ?thesis
    unfolding n by simp
qed

text \<open>The claim as first stated fails: with marks at 0 and at 1000 the key would stay in
  the set until 3000, and it is not in the set at 2500.\<close>

theorem remark_counterexample:
  "\<not> isRecentlyUpdated ''P1''
       (elapse 2500 (mark ''P1'' (elapse 1000 (mark ''P1'' (init_dashboard 0)))))"
  by (simp add: isRecentlyUpdated_def elapse_def mark_def init_dashboard_def expire_def)

end
